theory Spec2Isabelle
  imports Complex_Main
begin

section \<open>The tabular dataset\<close>

text \<open>
  The transformation engine of \<^verbatim>\<open>etl_lib/transformers.py\<close> works on pandas data
  frames. A frame is embedded as the ordered list of its named columns; a column
  carries the dtype pandas keeps for it and one cell per row. The row index is not
  modelled: every series the code combines with a frame is computed from that same
  frame, so index alignment is the identity. Selection by label follows pandas for
  frames whose labels are unique, which is the dataset invariant of the specification.

  Missing values keep the marker pandas stores: the float \<^verbatim>\<open>nan\<close>, Python's
  \<^verbatim>\<open>None\<close>, \<^verbatim>\<open>pd.NA\<close> of the nullable dtypes and \<^verbatim>\<open>pd.NaT\<close>. Integers are
  unbounded and a float cell holds the exact rational it denotes (rounding, the
  infinities and the 64-bit range are outside the embedding).
\<close>

datatype null_kind = NaN | PyNone | NA | NaT

datatype cell =
    CInt int
  | CFloat rat
  | CStr string
  | CBool bool
  | CTime int
  | CNull null_kind

datatype dtype = DInt64 | DFloat64 | DBool | DObject | DNullableInt | DDatetime

type_synonym series = "dtype \<times> cell list"

type_synonym dataframe = "(string \<times> series) list"

datatype py_error = KeyError | TypeError | ValueError | AttributeError | ReError

definition columns :: "dataframe \<Rightarrow> string list" where
  "columns df = map fst df"

definition nrows :: "dataframe \<Rightarrow> nat" where
  "nrows df = (case df of [] \<Rightarrow> 0 | (_, (_, cs)) # _ \<Rightarrow> length cs)"

text \<open>The dataset invariant of the specification: names unique, columns of equal length.\<close>

definition equal_length :: "dataframe \<Rightarrow> bool" where
  "equal_length df = list_all (\<lambda>(n, (d, cs)). length cs = nrows df) df"

definition invariant :: "dataframe \<Rightarrow> bool" where
  "invariant df = (distinct (columns df) \<and> equal_length df)"

text \<open>\<^verbatim>\<open>df[[c1, c2, ...]]\<close>: the columns labelled by the list, in the list's order.\<close>

definition select_columns :: "dataframe \<Rightarrow> string list \<Rightarrow> dataframe" where
  "select_columns df sel = concat (map (\<lambda>c. filter (\<lambda>(n, s). n = c) df) sel)"

text \<open>\<^verbatim>\<open>df.rename(columns=rename_map)\<close>: labels outside the dictionary stay.\<close>

definition rename_columns :: "(string \<rightharpoonup> string) \<Rightarrow> dataframe \<Rightarrow> dataframe" where
  "rename_columns rename_map df =
     map (\<lambda>(n, s). (case rename_map n of Some n' \<Rightarrow> n' | None \<Rightarrow> n, s)) df"

text \<open>
  A function of the source either hands back the very frame it was given
  (\<^verbatim>\<open>return df\<close>) or a frame it built.
\<close>

datatype 'a returned = Same | New 'a

definition frame_of :: "dataframe \<Rightarrow> dataframe returned \<Rightarrow> dataframe" where
  "frame_of df r = (case r of Same \<Rightarrow> df | New d \<Rightarrow> d)"

section \<open>Configuration values\<close>

text \<open>
  The literals a template can hold where the engine expects a value: a JSON scalar, or
  a list of scalars (the argument of \<^verbatim>\<open>isin\<close> and \<^verbatim>\<open>notin\<close>).
\<close>

datatype scalar = SNull | SBool bool | SInt int | SFloat rat | SStr string

datatype jvalue = JScalar scalar | JList "scalar list"

section \<open>The pandas operations the engine calls\<close>

text \<open>
  The library is pandas 1 or 2, where \<^verbatim>\<open>astype(str)\<close> is Python's \<^verbatim>\<open>str\<close> of every
  element. The operations that have no short definition are parameters of the
  embedding, and what is proved holds for every library that provides them: how a
  float or a timestamp prints, which strings read as a float or as a timestamp, the
  regular-expression compiler, the six comparison operators of a series against a
  literal, membership in a list, and the expression evaluator. A parameter that returns
  \<open>None\<close> stands for a call that raises.
\<close>

record pandas =
  float_of_string :: "string \<Rightarrow> rat option"
  to_datetime :: "cell \<Rightarrow> int option"
  str_of_float :: "rat \<Rightarrow> string"
  str_of_time :: "int \<Rightarrow> string"
  str_of_list :: "scalar list \<Rightarrow> string"
  re_compile :: "string \<Rightarrow> (string \<Rightarrow> bool) option"
  compare :: "string \<Rightarrow> series \<Rightarrow> jvalue \<Rightarrow> bool list option"
  isin :: "series \<Rightarrow> scalar list \<Rightarrow> bool list"
  frame_eval :: "dataframe \<Rightarrow> string \<Rightarrow> series option"

fun is_null :: "cell \<Rightarrow> bool" where
  "is_null (CNull k) = True"
| "is_null c = False"

text \<open>\<^verbatim>\<open>df[name] = s\<close>: an existing label keeps its place, a new one is appended.\<close>

definition set_column :: "dataframe \<Rightarrow> string \<Rightarrow> series \<Rightarrow> dataframe" where
  "set_column df name s =
     (if name \<in> set (columns df)
      then map (\<lambda>(n, x). if n = name then (n, s) else (n, x)) df
      else df @ [(name, s)])"

subsection \<open>Text of a value\<close>

fun str_of_nat :: "nat \<Rightarrow> string" where
  "str_of_nat n =
     (if n < 10 then [''0123456789'' ! n]
      else str_of_nat (n div 10) @ [''0123456789'' ! (n mod 10)])"

declare str_of_nat.simps [simp del]

definition str_of_int :: "int \<Rightarrow> string" where
  "str_of_int i = (if i < 0 then CHR ''-'' # str_of_nat (nat (- i)) else str_of_nat (nat i))"

fun null_repr :: "null_kind \<Rightarrow> string" where
  "null_repr NaN = ''nan''"
| "null_repr PyNone = ''None''"
| "null_repr NA = ''<NA>''"
| "null_repr NaT = ''NaT''"

text \<open>Python's \<^verbatim>\<open>str(x)\<close> of a cell, which \<^verbatim>\<open>astype(str)\<close> applies to every element.\<close>

fun str_of_cell :: "pandas \<Rightarrow> cell \<Rightarrow> string" where
  "str_of_cell env (CInt i) = str_of_int i"
| "str_of_cell env (CFloat r) = str_of_float env r"
| "str_of_cell env (CStr s) = s"
| "str_of_cell env (CBool b) = (if b then ''True'' else ''False'')"
| "str_of_cell env (CTime t) = str_of_time env t"
| "str_of_cell env (CNull k) = null_repr k"

definition astype_str :: "pandas \<Rightarrow> series \<Rightarrow> series" where
  "astype_str env s = (DObject, map (\<lambda>c. CStr (str_of_cell env c)) (snd s))"

text \<open>\<^verbatim>\<open>str(value)\<close> of a template literal.\<close>

fun str_of_scalar :: "pandas \<Rightarrow> scalar \<Rightarrow> string" where
  "str_of_scalar env SNull = ''None''"
| "str_of_scalar env (SBool b) = (if b then ''True'' else ''False'')"
| "str_of_scalar env (SInt i) = str_of_int i"
| "str_of_scalar env (SFloat r) = str_of_float env r"
| "str_of_scalar env (SStr s) = s"

fun str_of_jvalue :: "pandas \<Rightarrow> jvalue \<Rightarrow> string" where
  "str_of_jvalue env (JScalar v) = str_of_scalar env v"
| "str_of_jvalue env (JList vs) = str_of_list env vs"

subsection \<open>Numbers read from text\<close>

definition digit_of :: "char \<Rightarrow> nat option" where
  "digit_of c = map_of (zip ''0123456789'' [0, 1, 2, 3, 4, 5, 6, 7, 8, 9]) c"

fun nat_of_digits :: "string \<Rightarrow> nat \<Rightarrow> nat option" where
  "nat_of_digits [] acc = Some acc"
| "nat_of_digits (c # cs) acc =
     (case digit_of c of None \<Rightarrow> None | Some d \<Rightarrow> nat_of_digits cs (10 * acc + d))"

text \<open>A decimal integer literal: digits, with an optional minus sign in front.\<close>

definition int_of_string :: "string \<Rightarrow> int option" where
  "int_of_string s =
     (case s of
        [] \<Rightarrow> None
      | c # cs \<Rightarrow>
          if c = CHR ''-''
          then (if cs = [] then None else map_option (\<lambda>n. - int n) (nat_of_digits cs 0))
          else map_option int (nat_of_digits s 0))"

text \<open>
  \<^verbatim>\<open>pd.to_numeric(s, errors='coerce')\<close>. An element of an object column that is a
  string is parsed, as an integer literal or else by the library's float reader; what
  has no numeric reading becomes NaN. The result is an integer column when every
  element is an integer, a boolean one when every element is a boolean, and a float
  column otherwise. A numeric column is returned as it is, a timestamp column as its
  64-bit integer view.
\<close>

definition to_numeric_cell :: "pandas \<Rightarrow> cell \<Rightarrow> cell" where
  "to_numeric_cell env c =
     (case c of
        CStr s \<Rightarrow>
          (case int_of_string s of
             Some i \<Rightarrow> CInt i
           | None \<Rightarrow> (case float_of_string env s of Some r \<Rightarrow> CFloat r | None \<Rightarrow> CNull NaN))
      | CInt i \<Rightarrow> CInt i
      | CFloat r \<Rightarrow> CFloat r
      | CBool b \<Rightarrow> CBool b
      | CTime t \<Rightarrow> CNull NaN
      | CNull k \<Rightarrow> CNull NaN)"

fun float_of_cell :: "cell \<Rightarrow> cell" where
  "float_of_cell (CInt i) = CFloat (of_int i)"
| "float_of_cell (CFloat r) = CFloat r"
| "float_of_cell (CBool b) = CFloat (if b then 1 else 0)"
| "float_of_cell (CTime t) = CFloat (of_int t)"
| "float_of_cell (CStr s) = CNull NaN"
| "float_of_cell (CNull k) = CNull NaN"

fun is_int_cell :: "cell \<Rightarrow> bool" where
  "is_int_cell (CInt i) = True"
| "is_int_cell c = False"

fun is_bool_cell :: "cell \<Rightarrow> bool" where
  "is_bool_cell (CBool b) = True"
| "is_bool_cell c = False"

definition to_numeric :: "pandas \<Rightarrow> series \<Rightarrow> series" where
  "to_numeric env s =
     (case s of (dt, cells) \<Rightarrow>
        if dt = DObject then
          (let xs = map (to_numeric_cell env) cells in
           if list_all is_int_cell xs then (DInt64, xs)
           else if list_all is_bool_cell xs then (DBool, xs)
           else (DFloat64, map float_of_cell xs))
        else if dt = DDatetime then
          (DInt64, map (\<lambda>c. case c of CTime t \<Rightarrow> CInt t | _ \<Rightarrow> CInt (- (2 ^ 63))) cells)
        else s)"

text \<open>Collecting element-wise results: the first element that raises aborts the call.\<close>

fun collect :: "(py_error + 'a) list \<Rightarrow> py_error + 'a list" where
  "collect [] = Inr []"
| "collect (Inl e # xs) = Inl e"
| "collect (Inr x # xs) = (case collect xs of Inl e \<Rightarrow> Inl e | Inr ys \<Rightarrow> Inr (x # ys))"

text \<open>
  \<^verbatim>\<open>astype('Int64')\<close>, the nullable integer dtype: a missing element becomes
  \<^verbatim>\<open>pd.NA\<close>, a float must denote an integer or the cast raises TypeError.
\<close>

fun int64_of_cell :: "cell \<Rightarrow> py_error + cell" where
  "int64_of_cell (CInt i) = Inr (CInt i)"
| "int64_of_cell (CFloat r) = (if r = of_int \<lfloor>r\<rfloor> then Inr (CInt \<lfloor>r\<rfloor>) else Inl TypeError)"
| "int64_of_cell (CBool b) = Inr (CInt (if b then 1 else 0))"
| "int64_of_cell (CNull k) = Inr (CNull NA)"
| "int64_of_cell (CStr s) = Inl ValueError"
| "int64_of_cell (CTime t) = Inl TypeError"

definition astype_Int64 :: "series \<Rightarrow> py_error + series" where
  "astype_Int64 s =
     (case collect (map int64_of_cell (snd s)) of
        Inl e \<Rightarrow> Inl e
      | Inr xs \<Rightarrow> Inr (DNullableInt, xs))"

definition astype_float :: "series \<Rightarrow> series" where
  "astype_float s = (DFloat64, map float_of_cell (snd s))"

text \<open>
  The literal table \<^verbatim>\<open>map_to_bool\<close> of lines 85 and 86. A dictionary is looked up by
  hash and equality, so the keys \<^verbatim>\<open>1\<close> and \<^verbatim>\<open>0\<close> also answer for \<^verbatim>\<open>1.0\<close>,
  \<^verbatim>\<open>True\<close>, \<^verbatim>\<open>0.0\<close> and \<^verbatim>\<open>False\<close>.
\<close>

definition map_to_bool :: "cell \<Rightarrow> bool option" where
  "map_to_bool c =
     (case c of
        CStr s \<Rightarrow>
          (if s \<in> set [''true'', ''True'', ''TRUE'', ''1''] then Some True
           else if s \<in> set [''false'', ''False'', ''FALSE'', ''0''] then Some False
           else None)
      | CInt i \<Rightarrow> (if i = 1 then Some True else if i = 0 then Some False else None)
      | CFloat r \<Rightarrow> (if r = 1 then Some True else if r = 0 then Some False else None)
      | CBool b \<Rightarrow> Some b
      | CTime t \<Rightarrow> None
      | CNull k \<Rightarrow> None)"

text \<open>\<^verbatim>\<open>Series.map(dict)\<close>: an element the dictionary does not hold becomes NaN.\<close>

definition series_map :: "(cell \<Rightarrow> bool option) \<Rightarrow> series \<Rightarrow> series" where
  "series_map table s =
     (let xs = map (\<lambda>c. case table c of Some b \<Rightarrow> CBool b | None \<Rightarrow> CNull NaN) (snd s)
      in (if list_all is_bool_cell xs then DBool else DObject, xs))"

text \<open>
  \<^verbatim>\<open>astype(bool)\<close> takes Python's truth value of every element. The truth value of
  the float \<^verbatim>\<open>nan\<close> is true, as of every float but zero; \<^verbatim>\<open>bool(pd.NA)\<close> raises.
\<close>

fun truth_of_cell :: "cell \<Rightarrow> py_error + cell" where
  "truth_of_cell (CBool b) = Inr (CBool b)"
| "truth_of_cell (CInt i) = Inr (CBool (i \<noteq> 0))"
| "truth_of_cell (CFloat r) = Inr (CBool (r \<noteq> 0))"
| "truth_of_cell (CStr s) = Inr (CBool (s \<noteq> []))"
| "truth_of_cell (CTime t) = Inr (CBool True)"
| "truth_of_cell (CNull NaN) = Inr (CBool True)"
| "truth_of_cell (CNull PyNone) = Inr (CBool False)"
| "truth_of_cell (CNull NA) = Inl TypeError"
| "truth_of_cell (CNull NaT) = Inr (CBool True)"

definition astype_bool :: "series \<Rightarrow> py_error + series" where
  "astype_bool s =
     (case collect (map truth_of_cell (snd s)) of
        Inl e \<Rightarrow> Inl e
      | Inr xs \<Rightarrow> Inr (DBool, xs))"

text \<open>\<^verbatim>\<open>pd.to_datetime(s, errors='coerce')\<close>: what does not parse becomes NaT.\<close>

definition to_datetime_coerce :: "pandas \<Rightarrow> series \<Rightarrow> series" where
  "to_datetime_coerce env s =
     (DDatetime, map (\<lambda>c. case to_datetime env c of Some t \<Rightarrow> CTime t | None \<Rightarrow> CNull NaT) (snd s))"

text \<open>Python's \<^verbatim>\<open>str.startswith\<close> and \<^verbatim>\<open>str.endswith\<close>.\<close>

fun starts_with :: "string \<Rightarrow> string \<Rightarrow> bool" where
  "starts_with [] s = True"
| "starts_with (p # ps) [] = False"
| "starts_with (p # ps) (c # cs) = (p = c \<and> starts_with ps cs)"

definition ends_with :: "string \<Rightarrow> string \<Rightarrow> bool" where
  "ends_with p s = starts_with (rev p) (rev s)"

text \<open>
  A library instance for evaluating examples. It knows no float and no timestamp
  reading of a string, compiles every pattern to the test for that literal substring,
  compares integers with integers and evaluates no expression; the examples below use
  it only where pandas behaves the same.
\<close>

fun has_substring :: "string \<Rightarrow> string \<Rightarrow> bool" where
  "has_substring p [] = (p = [])"
| "has_substring p (c # cs) = (starts_with p (c # cs) \<or> has_substring p cs)"

definition int_compare :: "string \<Rightarrow> series \<Rightarrow> jvalue \<Rightarrow> bool list option" where
  "int_compare opr s v =
     (case v of
        JScalar (SInt k) \<Rightarrow>
          if list_all is_int_cell (snd s) then
            Some (map (\<lambda>c. case c of
                        CInt i \<Rightarrow>
                          (if opr = ''>'' then i > k else if opr = ''<'' then i < k
                           else if opr = ''>='' then i \<ge> k else if opr = ''<='' then i \<le> k
                           else if opr = ''=='' then i = k else i \<noteq> k)
                      | _ \<Rightarrow> False) (snd s))
          else None
      | _ \<Rightarrow> None)"

definition plain_pandas :: pandas where
  "plain_pandas =
     \<lparr> float_of_string = (\<lambda>s. None),
       to_datetime = (\<lambda>c. None),
       str_of_float = (\<lambda>r. ''float''),
       str_of_time = (\<lambda>t. ''time''),
       str_of_list = (\<lambda>vs. ''list''),
       re_compile = (\<lambda>p. Some (has_substring p)),
       compare = int_compare,
       isin = (\<lambda>s vs. map (\<lambda>c. case c of CInt i \<Rightarrow> SInt i \<in> set vs
                                    | CStr x \<Rightarrow> SStr x \<in> set vs | _ \<Rightarrow> False) (snd s)),
       frame_eval = (\<lambda>df e. None) \<rparr>"

section \<open>Column mapper\<close>

text \<open>
  An element of the \<^verbatim>\<open>column_mappings\<close> list: anything that is not a dictionary, or a
  dictionary whose \<^verbatim>\<open>from\<close> and \<^verbatim>\<open>to\<close> keys may each be absent.
\<close>

datatype mapping_entry = NotADict | MapEntry "string option" "string option"

text \<open>The loop of lines 22 to 35: it validates each entry and fills \<^verbatim>\<open>rename_map\<close>.\<close>

fun build_rename_map ::
  "string list \<Rightarrow> mapping_entry list \<Rightarrow> (string \<rightharpoonup> string) \<Rightarrow> (string \<rightharpoonup> string)" where
  "build_rename_map cols [] rename_map = rename_map"
| "build_rename_map cols (MapEntry (Some old_name) (Some new_name) # es) rename_map =
     (if old_name \<in> set cols then
        (if old_name \<noteq> new_name
         then build_rename_map cols es (rename_map(old_name \<mapsto> new_name))
         else build_rename_map cols es rename_map)
      else build_rename_map cols es rename_map)"
| "build_rename_map cols (e # es) rename_map = build_rename_map cols es rename_map"

text \<open>
  The comprehension of line 38 reads \<^verbatim>\<open>m['from']\<close> of every entry again, valid or
  not: a dictionary without the key raises KeyError, a value that is not a dictionary
  raises TypeError.
\<close>

fun columns_to_select :: "string list \<Rightarrow> mapping_entry list \<Rightarrow> py_error + string list" where
  "columns_to_select cols [] = Inr []"
| "columns_to_select cols (NotADict # ms) = Inl TypeError"
| "columns_to_select cols (MapEntry None t # ms) = Inl KeyError"
| "columns_to_select cols (MapEntry (Some f) t # ms) =
     (case columns_to_select cols ms of
        Inl e \<Rightarrow> Inl e
      | Inr sel \<Rightarrow> Inr (if f \<in> set cols then f # sel else sel))"

definition map_columns_ret ::
  "dataframe \<Rightarrow> mapping_entry list \<Rightarrow> py_error + dataframe returned" where
  "map_columns_ret df column_mappings =
     (if column_mappings = [] then Inr Same
      else
        let rename_map = build_rename_map (columns df) column_mappings Map.empty in
        case columns_to_select (columns df) column_mappings of
          Inl e \<Rightarrow> Inl e
        | Inr columns_to_select_original \<Rightarrow>
            if columns_to_select_original = [] then Inr Same
            else Inr (New (rename_columns rename_map
                             (select_columns df columns_to_select_original))))"

definition map_columns :: "dataframe \<Rightarrow> mapping_entry list \<Rightarrow> py_error + dataframe" where
  "map_columns df column_mappings =
     (case map_columns_ret df column_mappings of
        Inl e \<Rightarrow> Inl e
      | Inr r \<Rightarrow> Inr (frame_of df r))"

section \<open>Type coercer\<close>

text \<open>
  The body of the \<^verbatim>\<open>try\<close> of lines 68 to 93 for one column: the new series, \<open>None\<close>
  for an unsupported type tag, or the exception the conversion raises.
\<close>

definition convert_series :: "pandas \<Rightarrow> string \<Rightarrow> series \<Rightarrow> py_error + series option" where
  "convert_series env new_type s =
     (if new_type = ''int'' then
        (case astype_Int64 (to_numeric env s) of Inl e \<Rightarrow> Inl e | Inr s' \<Rightarrow> Inr (Some s'))
      else if new_type = ''float'' then Inr (Some (astype_float (to_numeric env s)))
      else if new_type = ''str'' then Inr (Some (astype_str env s))
      else if new_type = ''datetime'' then Inr (Some (to_datetime_coerce env s))
      else if new_type = ''bool'' then
        (case astype_bool (series_map map_to_bool s) of
           Inl e \<Rightarrow> Inl e
         | Inr s' \<Rightarrow> Inr (Some s'))
      else Inr None)"

text \<open>
  One iteration of the loop of line 66. An absent column is logged and skipped. An
  exception of the conversion is caught and logged and the column keeps its old
  content. When the frame carries the label more than once, \<^verbatim>\<open>df[column]\<close> is a frame
  and has no \<^verbatim>\<open>dtype\<close>: line 69 raises AttributeError inside the \<^verbatim>\<open>try\<close>, and the
  handler of line 95, which reads \<^verbatim>\<open>df[column].dtype\<close> for its message, raises it again,
  out of the function.
\<close>

definition convert_column ::
  "pandas \<Rightarrow> dataframe \<Rightarrow> string \<Rightarrow> string \<Rightarrow> py_error + dataframe" where
  "convert_column env df column new_type =
     (if column \<notin> set (columns df) then Inr df
      else if 1 < count_list (columns df) column then Inl AttributeError
      else
        (case map_of df column of
           None \<Rightarrow> Inr df
         | Some s \<Rightarrow>
             (case convert_series env new_type s of
                Inl e \<Rightarrow> Inr df
              | Inr None \<Rightarrow> Inr df
              | Inr (Some s') \<Rightarrow> Inr (set_column df column s'))))"

text \<open>The loop: an exception that leaves an iteration ends the call.\<close>

fun convert_data_types ::
  "pandas \<Rightarrow> dataframe \<Rightarrow> (string \<times> string) list \<Rightarrow> py_error + dataframe" where
  "convert_data_types env df [] = Inr df"
| "convert_data_types env df ((column, new_type) # type_conversions) =
     (case convert_column env df column new_type of
        Inl e \<Rightarrow> Inl e
      | Inr df' \<Rightarrow> convert_data_types env df' type_conversions)"

section \<open>Row filter\<close>

text \<open>
  A filter entry is a dictionary read with \<^verbatim>\<open>f.get\<close>: each of its three keys may be
  absent, and an absent \<^verbatim>\<open>value\<close> reads as \<^verbatim>\<open>None\<close>.
\<close>

record filter_entry =
  f_column :: "string option"
  f_condition :: "string option"
  f_value :: "jvalue option"

text \<open>
  \<^verbatim>\<open>df[mask]\<close> keeps the rows whose entry in the boolean mask is true, in their
  order; the mask has one entry per row, or the call raises.
\<close>

definition select_rows :: "bool list \<Rightarrow> dataframe \<Rightarrow> dataframe" where
  "select_rows keep df = map (\<lambda>(n, (d, cs)). (n, (d, map fst (filter snd (zip cs keep))))) df"

definition boolean_index :: "dataframe \<Rightarrow> bool list \<Rightarrow> py_error + dataframe" where
  "boolean_index df keep =
     (if length keep = nrows df then Inr (select_rows keep df) else Inl ValueError)"

text \<open>
  The \<^verbatim>\<open>.str\<close> accessor of an object column raises AttributeError when the values
  that are not missing are all numbers, all booleans or all timestamps; strings, mixed
  content and a column of missing values only are accepted.
\<close>

fun is_numeric_cell :: "cell \<Rightarrow> bool" where
  "is_numeric_cell (CInt i) = True"
| "is_numeric_cell (CFloat r) = True"
| "is_numeric_cell c = False"

fun is_time_cell :: "cell \<Rightarrow> bool" where
  "is_time_cell (CTime t) = True"
| "is_time_cell c = False"

definition str_accessor_ok :: "cell list \<Rightarrow> bool" where
  "str_accessor_ok cells =
     (let xs = filter (\<lambda>c. \<not> is_null c) cells in
      if xs = [] then True
      else \<not> (list_all is_numeric_cell xs \<or> list_all is_bool_cell xs \<or> list_all is_time_cell xs))"

text \<open>
  \<^verbatim>\<open>series.str.contains(pat, na=False)\<close>, \<^verbatim>\<open>startswith\<close> and \<^verbatim>\<open>endswith\<close>: the
  test of every string element; an element that is not a string gives a missing result,
  which \<^verbatim>\<open>na=False\<close> turns into false. \<^verbatim>\<open>contains\<close> compiles its pattern as a
  regular expression first, which raises on a pattern that is not one.
\<close>

definition str_mask :: "pandas \<Rightarrow> string \<Rightarrow> series \<Rightarrow> string \<Rightarrow> py_error + bool list" where
  "str_mask env condition series pat =
     (if \<not> str_accessor_ok (snd series) then Inl AttributeError
      else if condition = ''contains'' then
        (case re_compile env pat of
           None \<Rightarrow> Inl ReError
         | Some found \<Rightarrow> Inr (map (\<lambda>c. case c of CStr x \<Rightarrow> found x | _ \<Rightarrow> False) (snd series)))
      else if condition = ''startswith'' then
        Inr (map (\<lambda>c. case c of CStr x \<Rightarrow> starts_with pat x | _ \<Rightarrow> False) (snd series))
      else
        Inr (map (\<lambda>c. case c of CStr x \<Rightarrow> ends_with pat x | _ \<Rightarrow> False) (snd series)))"

text \<open>
  The dispatch on the condition, lines 125 to 164: the boolean mask to index with, \<open>None\<close>
  where the entry is skipped with a warning, or the exception raised on the way.
\<close>

definition filter_mask ::
  "pandas \<Rightarrow> string option \<Rightarrow> series \<Rightarrow> jvalue \<Rightarrow> py_error + bool list option" where
  "filter_mask env condition series v =
     (case condition of
        None \<Rightarrow> Inr None
      | Some cond \<Rightarrow>
          if cond \<in> set [''>'', ''<'', ''>='', ''<='', ''=='', ''!=''] then
            (case compare env cond series v of
               None \<Rightarrow> Inl TypeError
             | Some keep \<Rightarrow> Inr (Some keep))
          else if cond = ''isin'' then
            (case v of JList vs \<Rightarrow> Inr (Some (isin env series vs)) | JScalar x \<Rightarrow> Inr None)
          else if cond = ''notin'' then
            (case v of JList vs \<Rightarrow> Inr (Some (map Not (isin env series vs))) | JScalar x \<Rightarrow> Inr None)
          else if cond = ''isnull'' then Inr (Some (map is_null (snd series)))
          else if cond = ''notnull'' then Inr (Some (map (\<lambda>c. \<not> is_null c) (snd series)))
          else if cond \<in> set [''contains'', ''startswith'', ''endswith''] then
            (let series' = (if fst series \<noteq> DObject then astype_str env series else series) in
             case str_mask env cond series' (str_of_jvalue env v) of
               Inl e \<Rightarrow> Inl e
             | Inr keep \<Rightarrow> Inr (Some keep))
          else Inr None)"

text \<open>
  One iteration of the loop of line 112. An entry whose column is absent, whose
  condition is unknown or whose evaluation raises leaves the frame as it is.
\<close>

definition apply_filter :: "pandas \<Rightarrow> dataframe \<Rightarrow> filter_entry \<Rightarrow> dataframe" where
  "apply_filter env filtered_df f =
     (case f_column f of
        None \<Rightarrow> filtered_df
      | Some column \<Rightarrow>
          (case map_of filtered_df column of
             None \<Rightarrow> filtered_df
           | Some series \<Rightarrow>
               (case filter_mask env (f_condition f) series
                       (case f_value f of None \<Rightarrow> JScalar SNull | Some v \<Rightarrow> v) of
                  Inl e \<Rightarrow> filtered_df
                | Inr None \<Rightarrow> filtered_df
                | Inr (Some keep) \<Rightarrow>
                    (case boolean_index filtered_df keep of
                       Inl e \<Rightarrow> filtered_df
                     | Inr d \<Rightarrow> d))))"

definition filter_rows_ret :: "pandas \<Rightarrow> dataframe \<Rightarrow> filter_entry list \<Rightarrow> dataframe returned" where
  "filter_rows_ret env df filters =
     (if filters = [] then Same else New (foldl (apply_filter env) df filters))"

definition filter_rows :: "pandas \<Rightarrow> dataframe \<Rightarrow> filter_entry list \<Rightarrow> dataframe" where
  "filter_rows env df filters = frame_of df (filter_rows_ret env df filters)"

section \<open>Column synthesizer\<close>

text \<open>
  A synthesis entry, read with \<^verbatim>\<open>col_def.get\<close>. The literal of \<^verbatim>\<open>default_value\<close> is
  a JSON scalar; the key can be present with the value null.
\<close>

record column_definition =
  c_name :: "string option"
  c_operation :: "string option"
  c_sources :: "string list option"
  c_separator :: "string option"
  c_expression :: "string option"
  c_source_column :: "string option"
  c_value :: "scalar option"

text \<open>Python's \<^verbatim>\<open>not x\<close> of a string read with \<^verbatim>\<open>get\<close>: absent or empty.\<close>

definition falsy :: "string option \<Rightarrow> bool" where
  "falsy x = (case x of None \<Rightarrow> True | Some s \<Rightarrow> s = [])"

fun join :: "string \<Rightarrow> string list \<Rightarrow> string" where
  "join sep [] = []"
| "join sep [x] = x"
| "join sep (x # y # ys) = x @ sep @ join sep (y # ys)"

text \<open>\<^verbatim>\<open>df[sources].astype(str).agg(separator.join, axis=1)\<close>: one joined text per row.\<close>

definition concat_rows :: "pandas \<Rightarrow> dataframe \<Rightarrow> string list \<Rightarrow> string \<Rightarrow> series" where
  "concat_rows env df sources separator =
     (DObject,
      map (\<lambda>i. CStr (join separator
                  (map (\<lambda>(n, s). str_of_cell env (snd s ! i)) (select_columns df sources))))
          [0..<nrows df])"

fun cell_of_scalar :: "scalar \<Rightarrow> cell" where
  "cell_of_scalar SNull = CNull PyNone"
| "cell_of_scalar (SBool b) = CBool b"
| "cell_of_scalar (SInt i) = CInt i"
| "cell_of_scalar (SFloat r) = CFloat r"
| "cell_of_scalar (SStr s) = CStr s"

fun dtype_of_scalar :: "scalar \<Rightarrow> dtype" where
  "dtype_of_scalar SNull = DObject"
| "dtype_of_scalar (SBool b) = DBool"
| "dtype_of_scalar (SInt i) = DInt64"
| "dtype_of_scalar (SFloat r) = DFloat64"
| "dtype_of_scalar (SStr s) = DObject"

text \<open>\<^verbatim>\<open>df[name] = value\<close> of a scalar: the value in every row.\<close>

definition broadcast :: "dataframe \<Rightarrow> scalar \<Rightarrow> series" where
  "broadcast df v = (dtype_of_scalar v, replicate (nrows df) (cell_of_scalar v))"

text \<open>
  One iteration of the loop of line 180: the frame after the entry. Every
  \<^verbatim>\<open>continue\<close>, every warning branch and the \<^verbatim>\<open>except\<close> clause leave it as it is.
  Assigning a series of another length than the frame raises.
\<close>

definition add_column :: "pandas \<Rightarrow> dataframe \<Rightarrow> column_definition \<Rightarrow> dataframe" where
  "add_column env df col_def =
     (if falsy (c_name col_def) \<or> falsy (c_operation col_def) then df
      else
        let name = the (c_name col_def); operation = the (c_operation col_def) in
        if operation = ''concat'' then
          (let sources = (case c_sources col_def of None \<Rightarrow> [] | Some ss \<Rightarrow> ss);
               separator = (case c_separator col_def of None \<Rightarrow> [] | Some sep \<Rightarrow> sep);
               missing_sources = filter (\<lambda>s. s \<notin> set (columns df)) sources
           in if missing_sources \<noteq> [] then df
              else set_column df name (concat_rows env df sources separator))
        else if operation = ''eval'' then
          (if falsy (c_expression col_def) then df
           else
             (case frame_eval env df (the (c_expression col_def)) of
                None \<Rightarrow> df
              | Some s \<Rightarrow> if length (snd s) = nrows df then set_column df name s else df))
        else if operation = ''copy'' then
          (if falsy (c_source_column col_def) then df
           else
             (case map_of df (the (c_source_column col_def)) of
                Some s \<Rightarrow> set_column df name s
              | None \<Rightarrow> df))
        else if operation = ''default_value'' then
          (case c_value col_def of
             None \<Rightarrow> df
           | Some v \<Rightarrow> set_column df name (broadcast df v))
        else df)"

definition add_new_columns :: "pandas \<Rightarrow> dataframe \<Rightarrow> column_definition list \<Rightarrow> dataframe" where
  "add_new_columns env df new_column_definitions = foldl (add_column env) df new_column_definitions"

section \<open>Pipeline orchestrator\<close>

text \<open>
  The \<^verbatim>\<open>transformations\<close> section of a template: each of the four keys may be absent;
  \<open>other_keys\<close> says whether the dictionary holds any further key.
\<close>

record transform_options =
  o_column_mappings :: "mapping_entry list option"
  o_filters :: "filter_entry list option"
  o_new_columns :: "column_definition list option"
  o_data_type_conversions :: "(string \<times> string) list option"
  other_keys :: bool

text \<open>Python's \<^verbatim>\<open>not transform_options\<close>: the dictionary has no key.\<close>

definition no_options :: "transform_options \<Rightarrow> bool" where
  "no_options opts =
     (o_column_mappings opts = None \<and> o_filters opts = None \<and> o_new_columns opts = None
      \<and> o_data_type_conversions opts = None \<and> \<not> other_keys opts)"

definition transform_data :: "pandas \<Rightarrow> dataframe \<Rightarrow> transform_options \<Rightarrow> py_error + dataframe" where
  "transform_data env df opts =
     (if no_options opts then Inr df
      else
        let current_df = df in
        case (case o_column_mappings opts of
                None \<Rightarrow> Inr current_df
              | Some ms \<Rightarrow> map_columns current_df ms) of
          Inl e \<Rightarrow> Inl e
        | Inr mapped \<Rightarrow>
            let filtered = (case o_filters opts of
                              None \<Rightarrow> mapped
                            | Some fs \<Rightarrow> filter_rows env mapped fs);
                synthesized = (case o_new_columns opts of
                                 None \<Rightarrow> filtered
                               | Some defs \<Rightarrow> add_new_columns env filtered defs)
            in (case o_data_type_conversions opts of
                  None \<Rightarrow> Inr synthesized
                | Some tc \<Rightarrow> convert_data_types env synthesized tc))"

section \<open>Frames as objects\<close>

text \<open>
  A frame is a Python object: \<^verbatim>\<open>df[name] = ...\<close> changes the object every holder of
  the reference sees, while \<^verbatim>\<open>df.copy()\<close>, \<^verbatim>\<open>df[mask]\<close> and \<^verbatim>\<open>df[list]\<close> build
  a new one. The store is the list of the frames allocated so far and a reference is a
  position in it; allocation appends. Each function below is the function of the
  source with the store threaded through: it returns the store it leaves and the
  reference it returns. The intermediate frames that the filter loop drops again are
  not kept in the store.
\<close>

type_synonym heap = "dataframe list"

definition copy_at :: "heap \<Rightarrow> nat \<Rightarrow> heap \<times> nat" where
  "copy_at h df = (h @ [h ! df], length h)"

definition map_columns_at ::
  "heap \<Rightarrow> nat \<Rightarrow> mapping_entry list \<Rightarrow> heap \<times> (py_error + nat)" where
  "map_columns_at h df column_mappings =
     (case map_columns_ret (h ! df) column_mappings of
        Inl e \<Rightarrow> (h, Inl e)
      | Inr Same \<Rightarrow> (h, Inr df)
      | Inr (New mapped_df) \<Rightarrow> (h @ [mapped_df], Inr (length h)))"

definition filter_rows_at :: "pandas \<Rightarrow> heap \<Rightarrow> nat \<Rightarrow> filter_entry list \<Rightarrow> heap \<times> nat" where
  "filter_rows_at env h df filters =
     (case filter_rows_ret env (h ! df) filters of
        Same \<Rightarrow> (h, df)
      | New filtered_df \<Rightarrow> (h @ [filtered_df], length h))"

text \<open>The synthesizer and the coercer assign into the frame they are given.\<close>

definition add_new_columns_at ::
  "pandas \<Rightarrow> heap \<Rightarrow> nat \<Rightarrow> column_definition list \<Rightarrow> heap \<times> nat" where
  "add_new_columns_at env h df new_column_definitions =
     (foldl (\<lambda>h' col_def. h'[df := add_column env (h' ! df) col_def]) h new_column_definitions, df)"

fun convert_data_types_at ::
  "pandas \<Rightarrow> heap \<Rightarrow> nat \<Rightarrow> (string \<times> string) list \<Rightarrow> heap \<times> (py_error + nat)" where
  "convert_data_types_at env h df [] = (h, Inr df)"
| "convert_data_types_at env h df ((column, new_type) # type_conversions) =
     (case convert_column env (h ! df) column new_type of
        Inl e \<Rightarrow> (h, Inl e)
      | Inr df' \<Rightarrow> convert_data_types_at env (h[df := df']) df type_conversions)"

definition transform_data_at ::
  "pandas \<Rightarrow> heap \<Rightarrow> nat \<Rightarrow> transform_options \<Rightarrow> heap \<times> (py_error + nat)" where
  "transform_data_at env h df opts =
     (if no_options opts then (h, Inr df)
      else
        let (h0, current_df) = copy_at h df in
        case (case o_column_mappings opts of
                None \<Rightarrow> (h0, Inr current_df)
              | Some ms \<Rightarrow> map_columns_at h0 current_df ms) of
          (h1, Inl e) \<Rightarrow> (h1, Inl e)
        | (h1, Inr mapped) \<Rightarrow>
            let (h2, filtered) = (case o_filters opts of
                                    None \<Rightarrow> (h1, mapped)
                                  | Some fs \<Rightarrow> filter_rows_at env h1 mapped fs);
                (h3, synthesized) = (case o_new_columns opts of
                                       None \<Rightarrow> (h2, filtered)
                                     | Some defs \<Rightarrow> add_new_columns_at env h2 filtered defs)
            in (case o_data_type_conversions opts of
                  None \<Rightarrow> (h3, Inr synthesized)
                | Some tc \<Rightarrow> convert_data_types_at env h3 synthesized tc))"

section \<open>Notions used to state the properties\<close>


text \<open>
  The four stages of the orchestrator as functions of the configuration: the stage's
  function on the section when the key is present, the identity when it is absent.
\<close>

definition mapping_stage :: "transform_options \<Rightarrow> dataframe \<Rightarrow> py_error + dataframe" where
  "mapping_stage opts df =
     (case o_column_mappings opts of None \<Rightarrow> Inr df | Some ms \<Rightarrow> map_columns df ms)"

definition filtering_stage :: "pandas \<Rightarrow> transform_options \<Rightarrow> dataframe \<Rightarrow> dataframe" where
  "filtering_stage env opts df =
     (case o_filters opts of None \<Rightarrow> df | Some fs \<Rightarrow> filter_rows env df fs)"

definition synthesis_stage :: "pandas \<Rightarrow> transform_options \<Rightarrow> dataframe \<Rightarrow> dataframe" where
  "synthesis_stage env opts df =
     (case o_new_columns opts of None \<Rightarrow> df | Some defs \<Rightarrow> add_new_columns env df defs)"

definition coercion_stage ::
  "pandas \<Rightarrow> transform_options \<Rightarrow> dataframe \<Rightarrow> py_error + dataframe" where
  "coercion_stage env opts df =
     (case o_data_type_conversions opts of
        None \<Rightarrow> Inr df
      | Some tc \<Rightarrow> convert_data_types env df tc)"

text \<open>A section that is absent or empty.\<close>

definition absent_or_empty :: "'a list option \<Rightarrow> bool" where
  "absent_or_empty section = (case section of None \<Rightarrow> True | Some xs \<Rightarrow> xs = [])"

section \<open>Frames under assignment and row selection\<close>

lemma equal_length_iff:
  "equal_length df \<longleftrightarrow> (\<forall>n d cs. (n, (d, cs)) \<in> set df \<longrightarrow> length cs = nrows df)"
  by (auto simp: equal_length_def list_all_iff)

lemma nrows_member:
  "equal_length df \<Longrightarrow> (n, (d, cs)) \<in> set df \<Longrightarrow> length cs = nrows df"
  by (simp add: equal_length_iff)

lemma map_of_nrows:
  "equal_length df \<Longrightarrow> map_of df c = Some s \<Longrightarrow> length (snd s) = nrows df"
  by (metis equal_length_iff map_of_SomeD prod.collapse)

lemma columns_set_column:
  "columns (set_column df name s) =
     (if name \<in> set (columns df) then columns df else columns df @ [name])"
  by (induction df) (auto simp: set_column_def columns_def)





lemma columns_select_rows: "columns (select_rows keep df) = columns df"
  by (induction df) (auto simp: select_rows_def columns_def)






lemma apply_filter_cases:
  "apply_filter env df f = df \<or> (\<exists>keep. apply_filter env df f = select_rows keep df)"
proof (cases "f_column f")
  case None
  then show ?thesis by (simp add: apply_filter_def)
next
  case (Some column)
  note col = Some
  show ?thesis
  proof (cases "map_of df column")
    case None
    then show ?thesis by (simp add: apply_filter_def col)
  next
    case (Some series)
    let ?m = "filter_mask env (f_condition f) series
                (case f_value f of None \<Rightarrow> JScalar SNull | Some v \<Rightarrow> v)"
    show ?thesis
    proof (cases ?m)
      case (Inl e)
      then show ?thesis by (simp add: apply_filter_def col Some)
    next
      case (Inr r)
      show ?thesis
      proof (cases r)
        case None
        then show ?thesis by (simp add: apply_filter_def col Some Inr)
      next
        case (Some keep)
        show ?thesis
        proof (cases "length keep = nrows df")
          case True
          then have "apply_filter env df f = select_rows keep df"
            by (simp add: apply_filter_def col \<open>map_of df column = Some series\<close> Inr Some
                  boolean_index_def)
          then show ?thesis by blast
        next
          case False
          then show ?thesis
            by (simp add: apply_filter_def col \<open>map_of df column = Some series\<close> Inr Some
                  boolean_index_def)
        qed
      qed
    qed
  qed
qed








lemma convert_column_unique:
  "\<not> 1 < count_list (columns df) column \<Longrightarrow>
   convert_column env df column new_type =
     Inr (case map_of df column of
            None \<Rightarrow> df
          | Some s \<Rightarrow>
              (case convert_series env new_type s of
                 Inl e \<Rightarrow> df
               | Inr None \<Rightarrow> df
               | Inr (Some s') \<Rightarrow> set_column df column s'))"
proof (cases "column \<in> set (columns df)")
  case True
  assume "\<not> 1 < count_list (columns df) column"
  with True show ?thesis
    by (simp add: convert_column_def split: option.splits sum.splits)
next
  case False
  then have "map_of df column = None"
    by (simp add: columns_def map_of_eq_None_iff)
  with False show ?thesis by (simp add: convert_column_def)
qed






lemma add_column_skip:
  "falsy (c_name col_def) \<or> falsy (c_operation col_def) \<Longrightarrow> add_column env df col_def = df"
  by (simp add: add_column_def)

lemma add_column_concat:
  assumes "\<not> falsy (c_name col_def)" "c_operation col_def = Some ''concat''"
  shows "add_column env df col_def =
     (let sources = (case c_sources col_def of None \<Rightarrow> [] | Some ss \<Rightarrow> ss);
          separator = (case c_separator col_def of None \<Rightarrow> [] | Some sep \<Rightarrow> sep)
      in if filter (\<lambda>s. s \<notin> set (columns df)) sources \<noteq> [] then df
         else set_column df (the (c_name col_def)) (concat_rows env df sources separator))"
  using assms by (simp add: add_column_def falsy_def Let_def)


lemma add_column_copy:
  assumes "\<not> falsy (c_name col_def)" "c_operation col_def = Some ''copy''"
  shows "add_column env df col_def =
     (if falsy (c_source_column col_def) then df
      else (case map_of df (the (c_source_column col_def)) of
              Some s \<Rightarrow> set_column df (the (c_name col_def)) s
            | None \<Rightarrow> df))"
  using assms by (simp add: add_column_def falsy_def Let_def)



















section \<open>Properties of the column mapper\<close>

lemma columns_to_select_absent:
  "list_all (\<lambda>m. case m of NotADict \<Rightarrow> False
                 | MapEntry None t \<Rightarrow> False
                 | MapEntry (Some f) t \<Rightarrow> f \<notin> set cols) ms
   \<Longrightarrow> columns_to_select cols ms = Inr []"
proof (induction ms)
  case Nil
  then show ?case by simp
next
  case (Cons m ms)
  then show ?case
    by (cases m) (auto split: option.splits)
qed

text \<open>
  C3 (a malformed mapping entry is skipped with a warning and the call returns
  normally). The validating loop does skip the entry, but the comprehension of line 38
  indexes it again: with the single entry \<^verbatim>\<open>{"to": "x"}\<close> on a frame with column
  \<^verbatim>\<open>a\<close> the call raises KeyError, also when a well-formed entry follows, and an
  entry that is not a dictionary raises TypeError. An entry with \<^verbatim>\<open>from\<close> but without
  \<^verbatim>\<open>to\<close> is not skipped either: its column is selected under its old name.
\<close>

theorem map_columns_malformed_entry_raises:
  "map_columns [(''a'', (DInt64, [CInt 1]))] [MapEntry None (Some ''x'')] = Inl KeyError
   \<and> map_columns [(''a'', (DInt64, [CInt 1]))]
        [MapEntry None (Some ''x''), MapEntry (Some ''a'') (Some ''b'')] = Inl KeyError
   \<and> map_columns [(''a'', (DInt64, [CInt 1]))] [NotADict] = Inl TypeError
   \<and> map_columns [(''a'', (DInt64, [CInt 1])), (''b'', (DInt64, [CInt 2]))]
        [MapEntry (Some ''a'') None, MapEntry (Some ''b'') (Some ''y'')]
     = Inr [(''a'', (DInt64, [CInt 1])), (''y'', (DInt64, [CInt 2]))]"
  by (simp add: map_columns_def map_columns_ret_def columns_def frame_of_def
        rename_columns_def select_columns_def)

text \<open>
  C5 (no mapping entry, or entries none of whose \<^verbatim>\<open>from\<close> names exists: the
  dataset is returned unchanged).
\<close>

theorem map_columns_nothing_resolves:
  "map_columns df [] = Inr df
   \<and> (ms \<noteq> [] \<and> list_all (\<lambda>m. case m of NotADict \<Rightarrow> False
                 | MapEntry None t \<Rightarrow> False
                 | MapEntry (Some f) t \<Rightarrow> f \<notin> set (columns df)) ms
        \<longrightarrow> map_columns df ms = Inr df)"
  by (simp add: map_columns_def map_columns_ret_def frame_of_def columns_to_select_absent)

theorem map_columns_nothing_resolves_witness:
  "map_columns [(''a'', (DInt64, [CInt 1, CInt 2])), (''b'', (DObject, [CStr ''u'', CNull NaN]))]
     [MapEntry (Some ''p'') (Some ''x''), MapEntry (Some ''q'') None]
   = Inr [(''a'', (DInt64, [CInt 1, CInt 2])), (''b'', (DObject, [CStr ''u'', CNull NaN]))]"
  using map_columns_nothing_resolves
    [of "[(''a'', (DInt64, [CInt 1, CInt 2])), (''b'', (DObject, [CStr ''u'', CNull NaN]))]"
        "[MapEntry (Some ''p'') (Some ''x''), MapEntry (Some ''q'') None]"]
  by (simp add: columns_def)

section \<open>Properties of the dataset invariant\<close>




section \<open>Properties of the type coercer\<close>

lemma map_of_set_column:
  "map_of df c = Some s \<Longrightarrow> map_of (set_column df c s') c = Some s'"
proof -
  assume a: "map_of df c = Some s"
  then have "c \<in> set (columns df)"
    by (metis columns_def domI dom_map_of_conv_image_fst set_map)
  moreover have "c \<in> fst ` set xs \<Longrightarrow>
      map_of (map (\<lambda>(n, x). if n = c then (n, s') else (n, x)) xs) c = Some s'" for xs :: dataframe
    by (induction xs) auto
  ultimately show ?thesis by (simp add: set_column_def columns_def)
qed

text \<open>
  C1 (the column \<^verbatim>\<open>"1", "bad", "3"\<close> coerced to bool is true, false, true, the
  token \<^verbatim>\<open>"bad"\<close> becoming the falsy default). The literal table holds \<^verbatim>\<open>"1"\<close> but
  neither \<^verbatim>\<open>"bad"\<close> nor \<^verbatim>\<open>"3"\<close>, so \<^verbatim>\<open>map\<close> leaves NaN in both cells, and
  \<^verbatim>\<open>astype(bool)\<close> turns NaN into true, not into false as the comments of lines 84, 87
  and 91 say: the code returns true, true, true.
\<close>

theorem bool_coercion_unmapped_is_true:
  "map_to_bool (CStr ''1'') = Some True
   \<and> map_to_bool (CStr ''bad'') = None
   \<and> map_to_bool (CStr ''3'') = None
   \<and> series_map map_to_bool (DObject, [CStr ''1'', CStr ''bad'', CStr ''3''])
       = (DObject, [CBool True, CNull NaN, CNull NaN])
   \<and> convert_data_types env [(''c'', (DObject, [CStr ''1'', CStr ''bad'', CStr ''3'']))]
       [(''c'', ''bool'')]
     = Inr [(''c'', (DBool, [CBool True, CBool True, CBool True]))]"
  by (simp add: convert_column_def convert_series_def series_map_def map_to_bool_def
        astype_bool_def set_column_def columns_def)

text \<open>
  C8 (the column \<^verbatim>\<open>"1", "bad", "3"\<close> coerced to int is 1, null, 3 in the nullable
  integer dtype), for every float reader of the library that rejects \<^verbatim>\<open>"bad"\<close>.
\<close>

theorem int_coercion_example:
  "float_of_string env ''bad'' = None \<Longrightarrow>
   convert_data_types env [(''c'', (DObject, [CStr ''1'', CStr ''bad'', CStr ''3'']))]
     [(''c'', ''int'')]
   = Inr [(''c'', (DNullableInt, [CInt 1, CNull NA, CInt 3]))]"
  by (simp add: convert_column_def convert_series_def to_numeric_def to_numeric_cell_def
        int_of_string_def digit_of_def astype_Int64_def set_column_def columns_def)

theorem int_coercion_example_witness:
  "float_of_string plain_pandas ''bad'' = None
   \<and> convert_data_types plain_pandas
       [(''c'', (DObject, [CStr ''1'', CStr ''bad'', CStr ''3'']))] [(''c'', ''int'')]
     = Inr [(''c'', (DNullableInt, [CInt 1, CNull NA, CInt 3]))]"
proof -
  have h: "float_of_string plain_pandas ''bad'' = None"
    by (simp add: plain_pandas_def)
  from int_coercion_example [OF h] h show ?thesis by (rule_tac conjI)
qed

text \<open>
  C10 (after coercion to str every cell that was null is the text \<^verbatim>\<open>"nan"\<close>). A cell
  holding Python's \<^verbatim>\<open>None\<close>, as the literal null of a \<^verbatim>\<open>default_value\<close> entry
  leaves it, becomes the text \<^verbatim>\<open>"None"\<close>.
\<close>

theorem str_coercion_of_None_is_not_nan:
  "convert_data_types plain_pandas [(''c'', (DObject, [CNull PyNone, CStr ''a'']))] [(''c'', ''str'')]
     = Inr [(''c'', (DObject, [CStr ''None'', CStr ''a'']))]
   \<and> convert_data_types plain_pandas [(''c'', (DObject, [CNull PyNone, CStr ''a'']))] [(''c'', ''str'')]
     \<noteq> Inr [(''c'', (DObject, [CStr ''nan'', CStr ''a'']))]"
  by (simp add: convert_column_def convert_series_def astype_str_def set_column_def columns_def)

text \<open>
  C10 as amended: after a column of the frame, whose label the frame carries once, is
  coerced to str it holds no null cell, and every cell that was null holds the text of
  its missing-value marker: \<^verbatim>\<open>"nan"\<close> for the float NaN, \<^verbatim>\<open>"None"\<close>, \<^verbatim>\<open>"<NA>"\<close> and
  \<^verbatim>\<open>"NaT"\<close> for the others.
\<close>

theorem str_coercion_replaces_nulls:
  assumes "map_of df column = Some (dt, cells)"
    and "count_list (columns df) column = 1"
  shows "\<exists>d cells'. convert_data_types env df [(column, ''str'')] = Inr d
          \<and> map_of d column = Some (DObject, cells')
          \<and> length cells' = length cells
          \<and> list_all (\<lambda>c. \<not> is_null c) cells'
          \<and> (\<forall>i < length cells.
                (cells ! i = CNull NaN \<longrightarrow> cells' ! i = CStr ''nan'')
              \<and> (cells ! i = CNull PyNone \<longrightarrow> cells' ! i = CStr ''None'')
              \<and> (cells ! i = CNull NA \<longrightarrow> cells' ! i = CStr ''<NA>'')
              \<and> (cells ! i = CNull NaT \<longrightarrow> cells' ! i = CStr ''NaT''))"
proof -
  let ?cells' = "map (\<lambda>c. CStr (str_of_cell env c)) cells"
  let ?d = "set_column df column (DObject, ?cells')"
  have "\<not> 1 < count_list (columns df) column"
    using assms(2) by simp
  then have "convert_data_types env df [(column, ''str'')] = Inr ?d"
    using assms(1) by (simp add: convert_column_unique convert_series_def astype_str_def)
  moreover have "map_of ?d column = Some (DObject, ?cells')"
    using assms(1) by (simp add: map_of_set_column)
  moreover have "list_all (\<lambda>c. \<not> is_null c) ?cells'"
    by (simp add: list_all_iff)
  ultimately show ?thesis by (intro exI [of _ ?d] exI [of _ ?cells']) simp
qed

theorem str_coercion_replaces_nulls_witness:
  "map_of [(''c'', (DObject, [CNull NaN, CStr ''a'']))] ''c'' = Some (DObject, [CNull NaN, CStr ''a''])
   \<and> count_list (columns [(''c'', (DObject, [CNull NaN, CStr ''a'']))]) ''c'' = 1
   \<and> (\<exists>d cells'. convert_data_types plain_pandas
                  [(''c'', (DObject, [CNull NaN, CStr ''a'']))] [(''c'', ''str'')] = Inr d
              \<and> map_of d ''c'' = Some (DObject, cells')
              \<and> length cells' = 2 \<and> cells' ! 0 = CStr ''nan'')"
proof -
  have h: "map_of [(''c'', (DObject, [CNull NaN, CStr ''a'']))] ''c''
             = Some (DObject, [CNull NaN, CStr ''a''])"
    by simp
  have u: "count_list (columns [(''c'', (DObject, [CNull NaN, CStr ''a'']))]) ''c'' = 1"
    by (simp add: columns_def)
  from str_coercion_replaces_nulls [OF h u, of plain_pandas]
  obtain d cells' where
    "convert_data_types plain_pandas
       [(''c'', (DObject, [CNull NaN, CStr ''a'']))] [(''c'', ''str'')] = Inr d"
    "map_of d ''c'' = Some (DObject, cells')"
    "length cells' = length [CNull NaN, CStr ''a'']"
    "\<forall>i < length [CNull NaN, CStr ''a'']. [CNull NaN, CStr ''a''] ! i = CNull NaN \<longrightarrow> cells' ! i = CStr ''nan''"
    by blast
  then show ?thesis using h u by (intro conjI exI [of _ d] exI [of _ cells']) auto
qed

section \<open>Properties of skipped entries and of the orchestrator\<close>

lemma columns_apply_filter: "columns (apply_filter env df f) = columns df"
  using apply_filter_cases [of env df f] by (auto simp: columns_select_rows)

lemma columns_apply_filters: "columns (foldl (apply_filter env) df fs) = columns df"
  by (induction fs arbitrary: df) (simp_all add: columns_apply_filter)

lemma filter_rows_foldl: "filter_rows env df fs = foldl (apply_filter env) df fs"
  by (simp add: filter_rows_def filter_rows_ret_def frame_of_def)

lemma map_of_absent: "c \<notin> set (columns df) \<Longrightarrow> map_of df c = None"
  by (simp add: columns_def map_of_eq_None_iff)

lemma apply_filter_missing:
  "f_column f = Some c \<Longrightarrow> c \<notin> set (columns df) \<Longrightarrow> apply_filter env df f = df"
  by (simp add: apply_filter_def map_of_absent)

lemma filter_rows_skips_missing:
  assumes "f_column f = Some c" "c \<notin> set (columns df)"
  shows "filter_rows env df (pre @ f # post) = filter_rows env df (pre @ post)"
proof -
  have "c \<notin> set (columns (foldl (apply_filter env) df pre))"
    using assms(2) by (simp add: columns_apply_filters)
  then show ?thesis
    using assms(1) by (simp add: filter_rows_foldl apply_filter_missing)
qed

lemma columns_convert_column:
  "convert_column env df column new_type = Inr d \<Longrightarrow> columns d = columns df"
proof (cases "map_of df column")
  case None
  then show "convert_column env df column new_type = Inr d \<Longrightarrow> columns d = columns df"
    by (auto simp: convert_column_def split: if_splits)
next
  case (Some s)
  then have "column \<in> set (columns df)"
    by (metis columns_def domI dom_map_of_conv_image_fst set_map)
  then show "convert_column env df column new_type = Inr d \<Longrightarrow> columns d = columns df"
    by (auto simp: convert_column_def Some columns_set_column
             split: if_splits sum.splits option.splits)
qed

lemma convert_data_types_append:
  "convert_data_types env df (xs @ ys) =
     (case convert_data_types env df xs of
        Inl e \<Rightarrow> Inl e
      | Inr d \<Rightarrow> convert_data_types env d ys)"
  by (induction xs arbitrary: df) (auto split: sum.splits)

lemma columns_convert_data_types:
  "convert_data_types env df tc = Inr d \<Longrightarrow> columns d = columns df"
proof (induction tc arbitrary: df)
  case Nil
  then show ?case by simp
next
  case (Cons x tc)
  then show ?case
    by (cases x) (auto split: sum.splits dest: columns_convert_column)
qed

lemma convert_data_types_skips_missing:
  assumes "c \<notin> set (columns df)"
  shows "convert_data_types env df (pre @ (c, t) # post) = convert_data_types env df (pre @ post)"
proof (cases "convert_data_types env df pre")
  case (Inl e)
  then show ?thesis by (simp add: convert_data_types_append)
next
  case (Inr d)
  then have "c \<notin> set (columns d)"
    using assms by (simp add: columns_convert_data_types)
  then show ?thesis
    using Inr by (simp add: convert_data_types_append convert_column_def)
qed

lemma add_column_copy_missing:
  assumes "c_operation col_def = Some ''copy''" "c_source_column col_def = Some src"
    "src \<notin> set (columns df)"
  shows "add_column env df col_def = df"
proof (cases "falsy (c_name col_def)")
  case True
  then show ?thesis by (simp add: add_column_skip)
next
  case False
  then show ?thesis
    using assms by (simp add: add_column_copy map_of_absent)
qed

lemma add_column_concat_missing:
  assumes "c_operation col_def = Some ''concat''" "c_sources col_def = Some srcs"
    "src \<in> set srcs" "src \<notin> set (columns df)"
  shows "add_column env df col_def = df"
proof (cases "falsy (c_name col_def)")
  case True
  then show ?thesis by (simp add: add_column_skip)
next
  case False
  have "filter (\<lambda>s. s \<notin> set (columns df)) srcs \<noteq> []"
    using assms(3,4) by (auto simp: filter_empty_conv)
  then show ?thesis
    using assms(1,2) False by (simp add: add_column_concat)
qed

text \<open>
  C7 (an entry that references a column the frame does not have is skipped and the
  other entries of the stage are applied): the stage gives the same frame as without
  the entry, wherever the entry stands in the list. This holds for a filter entry, for
  a \<^verbatim>\<open>copy\<close> entry whose source and a \<^verbatim>\<open>concat\<close> entry one of whose sources is
  absent when the entry is reached, and for a type conversion. The filter and the
  synthesizer return a frame on every input, the coercer on every frame whose labels
  are unique: what raises inside them is caught per entry.
\<close>

theorem missing_column_entry_skipped:
  "(f_column f = Some c \<and> c \<notin> set (columns df) \<longrightarrow>
      filter_rows env df (fs @ f # fs') = filter_rows env df (fs @ fs'))
   \<and> (c_operation col_def = Some ''copy'' \<and> c_source_column col_def = Some src
        \<and> src \<notin> set (columns (add_new_columns env df defs)) \<longrightarrow>
      add_new_columns env df (defs @ col_def # defs') = add_new_columns env df (defs @ defs'))
   \<and> (c_operation col_def = Some ''concat'' \<and> c_sources col_def = Some srcs
        \<and> src \<in> set srcs \<and> src \<notin> set (columns (add_new_columns env df defs)) \<longrightarrow>
      add_new_columns env df (defs @ col_def # defs') = add_new_columns env df (defs @ defs'))
   \<and> (column \<notin> set (columns df) \<longrightarrow>
      convert_data_types env df (tc @ (column, new_type) # tc')
        = convert_data_types env df (tc @ tc'))"
proof (intro conjI impI)
  assume "f_column f = Some c \<and> c \<notin> set (columns df)"
  then show "filter_rows env df (fs @ f # fs') = filter_rows env df (fs @ fs')"
    by (simp add: filter_rows_skips_missing)
next
  assume "c_operation col_def = Some ''copy'' \<and> c_source_column col_def = Some src
        \<and> src \<notin> set (columns (add_new_columns env df defs))"
  then have "add_column env (add_new_columns env df defs) col_def = add_new_columns env df defs"
    by (simp add: add_column_copy_missing)
  then show "add_new_columns env df (defs @ col_def # defs') = add_new_columns env df (defs @ defs')"
    by (simp add: add_new_columns_def)
next
  assume "c_operation col_def = Some ''concat'' \<and> c_sources col_def = Some srcs
        \<and> src \<in> set srcs \<and> src \<notin> set (columns (add_new_columns env df defs))"
  then have "add_column env (add_new_columns env df defs) col_def = add_new_columns env df defs"
    by (blast intro: add_column_concat_missing)
  then show "add_new_columns env df (defs @ col_def # defs') = add_new_columns env df (defs @ defs')"
    by (simp add: add_new_columns_def)
next
  assume "column \<notin> set (columns df)"
  then show "convert_data_types env df (tc @ (column, new_type) # tc')
        = convert_data_types env df (tc @ tc')"
    by (rule convert_data_types_skips_missing)
qed

theorem missing_column_entry_skipped_witness:
  "filter_rows plain_pandas [(''n'', (DInt64, [CInt 1, CInt 2, CInt 3, CInt 4, CInt 5, CInt 6]))]
     [\<lparr>f_column = Some ''n'', f_condition = Some ''>'', f_value = Some (JScalar (SInt 2))\<rparr>,
      \<lparr>f_column = Some ''zz'', f_condition = Some ''isnull'', f_value = None\<rparr>,
      \<lparr>f_column = Some ''n'', f_condition = Some ''<'', f_value = Some (JScalar (SInt 5))\<rparr>]
   = [(''n'', (DInt64, [CInt 3, CInt 4]))]
   \<and> add_new_columns plain_pandas [(''a'', (DObject, [CStr ''x''])), (''b'', (DObject, [CStr ''y'']))]
       [\<lparr>c_name = Some ''k'', c_operation = Some ''copy'', c_sources = None,
          c_separator = None, c_expression = None, c_source_column = Some ''zz'', c_value = None\<rparr>,
        \<lparr>c_name = Some ''j'', c_operation = Some ''concat'', c_sources = Some [''a'', ''b''],
          c_separator = Some ''-'', c_expression = None, c_source_column = None, c_value = None\<rparr>]
     = [(''a'', (DObject, [CStr ''x''])), (''b'', (DObject, [CStr ''y''])),
        (''j'', (DObject, [CStr ''x-y'']))]
   \<and> add_new_columns plain_pandas [(''a'', (DObject, [CStr ''x''])), (''b'', (DObject, [CStr ''y'']))]
       [\<lparr>c_name = Some ''k'', c_operation = Some ''concat'', c_sources = Some [''a'', ''zz''],
          c_separator = None, c_expression = None, c_source_column = None, c_value = None\<rparr>,
        \<lparr>c_name = Some ''j'', c_operation = Some ''copy'', c_sources = None,
          c_separator = None, c_expression = None, c_source_column = Some ''b'', c_value = None\<rparr>]
     = [(''a'', (DObject, [CStr ''x''])), (''b'', (DObject, [CStr ''y''])),
        (''j'', (DObject, [CStr ''y'']))]
   \<and> convert_data_types plain_pandas [(''a'', (DObject, [CStr ''7'']))]
       [(''zz'', ''int''), (''a'', ''int'')]
     = Inr [(''a'', (DNullableInt, [CInt 7]))]"
proof -
  let ?n = "[(''n'', (DInt64, [CInt 1, CInt 2, CInt 3, CInt 4, CInt 5, CInt 6]))]"
  let ?ab = "[(''a'', (DObject, [CStr ''x''])), (''b'', (DObject, [CStr ''y'']))]"
  let ?a = "[(''a'', (DObject, [CStr ''7'']))]"
  let ?gt = "\<lparr>f_column = Some ''n'', f_condition = Some ''>'', f_value = Some (JScalar (SInt 2))\<rparr>"
  let ?lt = "\<lparr>f_column = Some ''n'', f_condition = Some ''<'', f_value = Some (JScalar (SInt 5))\<rparr>"
  let ?fz = "\<lparr>f_column = Some ''zz'', f_condition = Some ''isnull'', f_value = None\<rparr>"
  let ?copy_zz = "\<lparr>c_name = Some ''k'', c_operation = Some ''copy'', c_sources = None,
          c_separator = None, c_expression = None, c_source_column = Some ''zz'', c_value = None\<rparr>"
  let ?concat_ab = "\<lparr>c_name = Some ''j'', c_operation = Some ''concat'', c_sources = Some [''a'', ''b''],
          c_separator = Some ''-'', c_expression = None, c_source_column = None, c_value = None\<rparr>"
  let ?concat_zz = "\<lparr>c_name = Some ''k'', c_operation = Some ''concat'', c_sources = Some [''a'', ''zz''],
          c_separator = None, c_expression = None, c_source_column = None, c_value = None\<rparr>"
  let ?copy_b = "\<lparr>c_name = Some ''j'', c_operation = Some ''copy'', c_sources = None,
          c_separator = None, c_expression = None, c_source_column = Some ''b'', c_value = None\<rparr>"
  have f: "filter_rows plain_pandas ?n ([?gt] @ ?fz # [?lt]) = filter_rows plain_pandas ?n ([?gt] @ [?lt])"
    using missing_column_entry_skipped [of ?fz "''zz''" ?n plain_pandas "[?gt]" "[?lt]"]
    by (simp add: columns_def)
  have c: "add_new_columns plain_pandas ?ab ([] @ ?copy_zz # [?concat_ab])
         = add_new_columns plain_pandas ?ab ([] @ [?concat_ab])"
    using missing_column_entry_skipped
            [of _ _ ?ab plain_pandas _ _ ?copy_zz "''zz''" "[]" "[?concat_ab]"]
    by (simp add: columns_def add_new_columns_def)
  have k: "add_new_columns plain_pandas ?ab ([] @ ?concat_zz # [?copy_b])
         = add_new_columns plain_pandas ?ab ([] @ [?copy_b])"
    using missing_column_entry_skipped
            [of _ _ ?ab plain_pandas _ _ ?concat_zz "''zz''" "[]" "[?copy_b]" "[''a'', ''zz'']"]
    by (simp add: columns_def add_new_columns_def)
  have t: "convert_data_types plain_pandas ?a ([] @ (''zz'', ''int'') # [(''a'', ''int'')])
         = convert_data_types plain_pandas ?a ([] @ [(''a'', ''int'')])"
    using missing_column_entry_skipped
            [of _ _ ?a plain_pandas _ _ _ _ _ _ _ "''zz''" "[]" "''int''" "[(''a'', ''int'')]"]
    by (simp add: columns_def)
  have f': "filter_rows plain_pandas ?n [?gt, ?lt] = [(''n'', (DInt64, [CInt 3, CInt 4]))]"
    by (simp add: filter_rows_foldl apply_filter_def filter_mask_def plain_pandas_def
          int_compare_def boolean_index_def select_rows_def nrows_def)
  have c': "add_new_columns plain_pandas ?ab [?concat_ab]
        = [(''a'', (DObject, [CStr ''x''])), (''b'', (DObject, [CStr ''y''])),
           (''j'', (DObject, [CStr ''x-y'']))]"
    by (simp add: add_new_columns_def add_column_def falsy_def columns_def set_column_def
          concat_rows_def select_columns_def nrows_def)
  have k': "add_new_columns plain_pandas ?ab [?copy_b]
        = [(''a'', (DObject, [CStr ''x''])), (''b'', (DObject, [CStr ''y''])),
           (''j'', (DObject, [CStr ''y'']))]"
    by (simp add: add_new_columns_def add_column_def falsy_def columns_def set_column_def)
  have t': "convert_data_types plain_pandas ?a [(''a'', ''int'')]
        = Inr [(''a'', (DNullableInt, [CInt 7]))]"
    by (simp add: convert_column_def convert_series_def to_numeric_def to_numeric_cell_def
          int_of_string_def digit_of_def astype_Int64_def set_column_def columns_def)
  from f f' c c' k k' t t' show ?thesis by simp
qed

text \<open>
  C6 (the orchestrator runs mapping, filtering, synthesis and coercion in this order,
  and a stage whose section is absent or empty passes the frame through): for every
  frame, \<^verbatim>\<open>transform_data\<close> is the composition of the four stages in that order, an
  exception of the mapper or of the coercer ending the run; which stages run depends on
  the configuration only.
\<close>

theorem transform_data_fixed_order:
  "transform_data env df opts =
     (case mapping_stage opts df of
        Inl e \<Rightarrow> Inl e
      | Inr mapped \<Rightarrow>
          coercion_stage env opts
            (synthesis_stage env opts (filtering_stage env opts mapped)))
   \<and> (absent_or_empty (o_column_mappings opts) \<longrightarrow> mapping_stage opts df = Inr df)
   \<and> (absent_or_empty (o_filters opts) \<longrightarrow> filtering_stage env opts df = df)
   \<and> (absent_or_empty (o_new_columns opts) \<longrightarrow> synthesis_stage env opts df = df)
   \<and> (absent_or_empty (o_data_type_conversions opts) \<longrightarrow>
        coercion_stage env opts df = Inr df)"
proof (intro conjI impI)
  show "transform_data env df opts =
     (case mapping_stage opts df of
        Inl e \<Rightarrow> Inl e
      | Inr mapped \<Rightarrow>
          coercion_stage env opts
            (synthesis_stage env opts (filtering_stage env opts mapped)))"
  proof (cases "no_options opts")
    case True
    then show ?thesis
      by (simp add: transform_data_def no_options_def mapping_stage_def filtering_stage_def
            synthesis_stage_def coercion_stage_def)
  next
    case False
    then show ?thesis
      by (simp add: transform_data_def mapping_stage_def filtering_stage_def
            synthesis_stage_def coercion_stage_def Let_def split: sum.splits)
  qed
next
  assume "absent_or_empty (o_column_mappings opts)"
  then show "mapping_stage opts df = Inr df"
    by (auto simp: absent_or_empty_def mapping_stage_def map_columns_def map_columns_ret_def
          frame_of_def split: option.splits)
next
  assume "absent_or_empty (o_filters opts)"
  then show "filtering_stage env opts df = df"
    by (auto simp: absent_or_empty_def filtering_stage_def filter_rows_foldl split: option.splits)
next
  assume "absent_or_empty (o_new_columns opts)"
  then show "synthesis_stage env opts df = df"
    by (auto simp: absent_or_empty_def synthesis_stage_def add_new_columns_def split: option.splits)
next
  assume "absent_or_empty (o_data_type_conversions opts)"
  then show "coercion_stage env opts df = Inr df"
    by (auto simp: absent_or_empty_def coercion_stage_def split: option.splits)
qed

theorem transform_data_fixed_order_witness:
  "transform_data plain_pandas
     [(''n'', (DInt64, [CInt 1, CInt 2, CInt 3, CInt 4, CInt 5, CInt 6]))]
     \<lparr>o_column_mappings = None,
      o_filters = Some
        [\<lparr>f_column = Some ''n'', f_condition = Some ''>'', f_value = Some (JScalar (SInt 2))\<rparr>,
         \<lparr>f_column = Some ''n'', f_condition = Some ''<'', f_value = Some (JScalar (SInt 5))\<rparr>],
      o_new_columns = Some [],
      o_data_type_conversions = Some [(''n'', ''str'')],
      other_keys = False\<rparr>
   = Inr [(''n'', (DObject, [CStr ''3'', CStr ''4'']))]
   \<and> transform_data plain_pandas [(''a'', (DObject, [CStr ''x'']))]
       \<lparr>o_column_mappings = Some [], o_filters = None, o_new_columns = None,
        o_data_type_conversions = Some [], other_keys = False\<rparr>
     = Inr [(''a'', (DObject, [CStr ''x'']))]"
proof -
  let ?n = "[(''n'', (DInt64, [CInt 1, CInt 2, CInt 3, CInt 4, CInt 5, CInt 6]))]"
  let ?fs = "[\<lparr>f_column = Some ''n'', f_condition = Some ''>'', f_value = Some (JScalar (SInt 2))\<rparr>,
         \<lparr>f_column = Some ''n'', f_condition = Some ''<'', f_value = Some (JScalar (SInt 5))\<rparr>]"
  let ?o = "\<lparr>o_column_mappings = None, o_filters = Some ?fs, o_new_columns = Some [],
      o_data_type_conversions = Some [(''n'', ''str'')], other_keys = False\<rparr>"
  let ?a = "[(''a'', (DObject, [CStr ''x'']))]"
  let ?p = "\<lparr>o_column_mappings = Some [], o_filters = None, o_new_columns = None,
        o_data_type_conversions = Some [], other_keys = False\<rparr>"
  have f: "filter_rows plain_pandas ?n ?fs = [(''n'', (DInt64, [CInt 3, CInt 4]))]"
    by (simp add: filter_rows_foldl apply_filter_def filter_mask_def plain_pandas_def
          int_compare_def boolean_index_def select_rows_def nrows_def)
  have c: "convert_data_types plain_pandas [(''n'', (DInt64, [CInt 3, CInt 4]))] [(''n'', ''str'')]
         = Inr [(''n'', (DObject, [CStr ''3'', CStr ''4'']))]"
    by (simp add: convert_column_def convert_series_def astype_str_def set_column_def columns_def
          str_of_int_def str_of_nat.simps)
  have 1: "mapping_stage ?o ?n = Inr ?n" "synthesis_stage plain_pandas ?o d = d" for d
    using transform_data_fixed_order [of plain_pandas ?n ?o]
          transform_data_fixed_order [of plain_pandas d ?o]
    by (simp_all add: absent_or_empty_def)
  have 2: "mapping_stage ?p ?a = Inr ?a" "filtering_stage plain_pandas ?p ?a = ?a"
      "synthesis_stage plain_pandas ?p ?a = ?a" "coercion_stage plain_pandas ?p ?a = Inr ?a"
    using transform_data_fixed_order [of plain_pandas ?a ?p]
    by (simp_all add: absent_or_empty_def)
  have "transform_data plain_pandas ?n ?o = Inr [(''n'', (DObject, [CStr ''3'', CStr ''4'']))]"
    using transform_data_fixed_order [of plain_pandas ?n ?o] 1 f c
    by (simp add: filtering_stage_def coercion_stage_def)
  moreover have "transform_data plain_pandas ?a ?p = Inr ?a"
    using transform_data_fixed_order [of plain_pandas ?a ?p] 2 by simp
  ultimately show ?thesis by simp
qed

text \<open>
  Where the mapper has left two columns of one name and a conversion names it, the
  coercer raises and so does the run: column \<^verbatim>\<open>a\<close> mapped to \<^verbatim>\<open>x\<close> and to \<^verbatim>\<open>y\<close>,
  then \<^verbatim>\<open>y\<close> converted to int.
\<close>

lemma transform_data_raises_on_duplicated_label:
  "transform_data plain_pandas [(''a'', (DObject, [CStr ''7'']))]
     \<lparr>o_column_mappings = Some [MapEntry (Some ''a'') (Some ''x''),
                               MapEntry (Some ''a'') (Some ''y'')],
      o_filters = None, o_new_columns = None,
      o_data_type_conversions = Some [(''y'', ''int'')], other_keys = False\<rparr>
   = Inl AttributeError"
  by (simp add: transform_data_def no_options_def map_columns_def map_columns_ret_def
        columns_def frame_of_def rename_columns_def select_columns_def convert_column_def)

section \<open>The frame passed to the orchestrator\<close>

lemma foldl_update_at:
  "r < length h \<Longrightarrow>
   foldl (\<lambda>h' x. h'[r := step (h' ! r) x]) h xs = h[r := foldl step (h ! r) xs]"
proof (induction xs arbitrary: h)
  case Nil
  then show ?case by simp
next
  case (Cons x xs)
  then show ?case by simp
qed

lemma add_new_columns_at_eq:
  "r < length h \<Longrightarrow>
   add_new_columns_at env h r defs = (h[r := add_new_columns env (h ! r) defs], r)"
  by (simp add: add_new_columns_at_def add_new_columns_def foldl_update_at)

lemma filter_rows_at_step:
  assumes "take n hk = h0" "n \<le> rk" "rk < length hk"
    and "filter_rows_at env hk rk fs = (hk', rk')"
  shows "take n hk' = h0 \<and> n \<le> rk' \<and> rk' < length hk'
         \<and> hk' ! rk' = filter_rows env (hk ! rk) fs"
  using assms
  by (cases "filter_rows_ret env (hk ! rk) fs")
     (auto simp: filter_rows_at_def filter_rows_def frame_of_def)

lemma add_new_columns_at_step:
  assumes "take n hk = h0" "n \<le> rk" "rk < length hk"
    and "add_new_columns_at env hk rk defs = (hk', rk')"
  shows "take n hk' = h0 \<and> n \<le> rk' \<and> rk' < length hk'
         \<and> hk' ! rk' = add_new_columns env (hk ! rk) defs"
  using assms by (auto simp: add_new_columns_at_eq)

lemma convert_data_types_at_step:
  assumes "take n hk = h0" "n \<le> rk" "rk < length hk"
    and "convert_data_types_at env hk rk tc = (hk', res)"
  shows "take n hk' = h0 \<and>
         (case res of
            Inl e \<Rightarrow> convert_data_types env (hk ! rk) tc = Inl e
          | Inr rk' \<Rightarrow> n \<le> rk' \<and> rk' < length hk'
                       \<and> convert_data_types env (hk ! rk) tc = Inr (hk' ! rk'))"
  using assms
proof (induction tc arbitrary: hk)
  case Nil
  then show ?case by auto
next
  case (Cons x tc)
  obtain column new_type where x: "x = (column, new_type)" by (cases x) auto
  show ?case
  proof (cases "convert_column env (hk ! rk) column new_type")
    case (Inl e)
    then show ?thesis using Cons.prems by (auto simp: x)
  next
    case (Inr d)
    have a: "take n (hk[rk := d]) = h0" "rk < length (hk[rk := d])"
      using Cons.prems(1,2,3) by simp_all
    have "convert_data_types_at env (hk[rk := d]) rk tc = (hk', res)"
      using Cons.prems(4) Inr by (simp add: x)
    from Cons.IH [OF a(1) Cons.prems(2) a(2) this] show ?thesis
      using Cons.prems(3) Inr by (auto simp: x split: sum.splits)
  qed
qed

lemma map_columns_at_step:
  assumes "take n hk = h0" "n \<le> rk" "rk < length hk"
    and "map_columns_at hk rk ms = (hk', res)"
  shows "take n hk' = h0 \<and>
         (case res of
            Inl e \<Rightarrow> map_columns (hk ! rk) ms = Inl e
          | Inr rk' \<Rightarrow> n \<le> rk' \<and> rk' < length hk'
                       \<and> map_columns (hk ! rk) ms = Inr (hk' ! rk'))"
proof (cases "map_columns_ret (hk ! rk) ms")
  case (Inl e)
  then show ?thesis using assms by (auto simp: map_columns_at_def map_columns_def)
next
  case (Inr r)
  then show ?thesis
    using assms by (cases r) (auto simp: map_columns_at_def map_columns_def frame_of_def)
qed

text \<open>
  Called on its own, the synthesizer changes the frame it is given: the caller's object
  has the new column afterwards.
\<close>

lemma synthesizer_assigns_in_place:
  "add_new_columns_at plain_pandas [[(''a'', (DInt64, [CInt 1, CInt 2]))]] 0
     [\<lparr>c_name = Some ''k'', c_operation = Some ''default_value'', c_sources = None,
       c_separator = None, c_expression = None, c_source_column = None,
       c_value = Some (SStr ''x'')\<rparr>]
   = ([[(''a'', (DInt64, [CInt 1, CInt 2])), (''k'', (DObject, [CStr ''x'', CStr ''x'']))]], 0)"
  by (simp add: add_new_columns_at_def add_column_def falsy_def broadcast_def set_column_def
        columns_def nrows_def)

text \<open>
  C9 (\<^verbatim>\<open>transform_data\<close> leaves the frame passed to it unchanged; the stages work on
  a copy and only the returned frame shows the transformations): after the call every
  frame that existed before it, the argument among them, is what it was; the returned
  reference holds the result of the pipeline, or the call raises what the mapper or
  the coercer raised.
\<close>

theorem transform_data_leaves_input_unchanged:
  assumes "df < length h" and "transform_data_at env h df opts = (h', res)"
  shows "take (length h) h' = h \<and> h' ! df = h ! df
         \<and> (case res of
               Inl e \<Rightarrow> transform_data env (h ! df) opts = Inl e
             | Inr out \<Rightarrow> out < length h' \<and> transform_data env (h ! df) opts = Inr (h' ! out))"
proof (cases "no_options opts")
  case True
  then show ?thesis
    using assms by (auto simp: transform_data_at_def transform_data_def)
next
  case False
  let ?n = "length h"
  let ?h0 = "h @ [h ! df]"
  have a0: "take ?n ?h0 = h" "?n \<le> ?n" "?n < length ?h0" "?h0 ! ?n = h ! df"
    by simp_all
  obtain h1 r1 where m: "(case o_column_mappings opts of
                None \<Rightarrow> (?h0, Inr ?n)
              | Some ms \<Rightarrow> map_columns_at ?h0 ?n ms) = (h1, r1)"
    by (cases "case o_column_mappings opts of
                None \<Rightarrow> (?h0, Inr ?n)
              | Some ms \<Rightarrow> map_columns_at ?h0 ?n ms") auto
  have a1: "take ?n h1 = h \<and>
         (case r1 of
            Inl e \<Rightarrow> mapping_stage opts (h ! df) = Inl e
          | Inr k \<Rightarrow> ?n \<le> k \<and> k < length h1 \<and> mapping_stage opts (h ! df) = Inr (h1 ! k))"
  proof (cases "o_column_mappings opts")
    case None
    then show ?thesis using m by (auto simp: mapping_stage_def)
  next
    case (Some ms)
    then have "map_columns_at ?h0 ?n ms = (h1, r1)" using m by simp
    from map_columns_at_step [OF a0(1) a0(2) a0(3) this] show ?thesis
      by (auto simp: mapping_stage_def Some split: sum.splits)
  qed
  have td: "transform_data env (h ! df) opts =
     (case mapping_stage opts (h ! df) of
        Inl e \<Rightarrow> Inl e
      | Inr mapped \<Rightarrow>
          coercion_stage env opts
            (synthesis_stage env opts (filtering_stage env opts mapped)))"
    using False
    by (simp add: transform_data_def mapping_stage_def filtering_stage_def
          synthesis_stage_def coercion_stage_def Let_def split: sum.splits)
  show ?thesis
  proof (cases r1)
    case (Inl e)
    then have "h' = h1" "res = Inl e"
      using assms(2) False m by (simp_all add: transform_data_at_def copy_at_def)
    moreover have "h1 ! df = take ?n h1 ! df"
      using assms(1) by simp
    ultimately show ?thesis
      using a1 Inl td by simp
  next
    case (Inr mapped)
    then have b1: "take ?n h1 = h" "?n \<le> mapped" "mapped < length h1"
        "mapping_stage opts (h ! df) = Inr (h1 ! mapped)"
      using a1 by simp_all
    obtain h2 r2 where f: "(case o_filters opts of
                                    None \<Rightarrow> (h1, mapped)
                                  | Some fs \<Rightarrow> filter_rows_at env h1 mapped fs) = (h2, r2)"
      by (cases "case o_filters opts of
                                    None \<Rightarrow> (h1, mapped)
                                  | Some fs \<Rightarrow> filter_rows_at env h1 mapped fs") auto
    have b2: "take ?n h2 = h \<and> ?n \<le> r2 \<and> r2 < length h2
        \<and> h2 ! r2 = filtering_stage env opts (h1 ! mapped)"
    proof (cases "o_filters opts")
      case None
      then show ?thesis using f b1 by (auto simp: filtering_stage_def)
    next
      case (Some fs)
      then have "filter_rows_at env h1 mapped fs = (h2, r2)" using f by simp
      from filter_rows_at_step [OF b1(1) b1(2) b1(3) this] show ?thesis
        by (simp add: filtering_stage_def Some)
    qed
    obtain h3 r3 where s: "(case o_new_columns opts of
                                       None \<Rightarrow> (h2, r2)
                                     | Some defs \<Rightarrow> add_new_columns_at env h2 r2 defs) = (h3, r3)"
      by (cases "case o_new_columns opts of
                                       None \<Rightarrow> (h2, r2)
                                     | Some defs \<Rightarrow> add_new_columns_at env h2 r2 defs") auto
    have b3: "take ?n h3 = h \<and> ?n \<le> r3 \<and> r3 < length h3
        \<and> h3 ! r3 = synthesis_stage env opts (h2 ! r2)"
    proof (cases "o_new_columns opts")
      case None
      then show ?thesis using s b2 by (auto simp: synthesis_stage_def)
    next
      case (Some defs)
      then have "add_new_columns_at env h2 r2 defs = (h3, r3)" using s by simp
      from add_new_columns_at_step [OF _ _ _ this, of ?n h] b2 show ?thesis
        by (simp add: synthesis_stage_def Some)
    qed
    obtain h4 r4 where c: "(case o_data_type_conversions opts of
                                   None \<Rightarrow> (h3, Inr r3)
                                 | Some tc \<Rightarrow> convert_data_types_at env h3 r3 tc) = (h4, r4)"
      by (cases "case o_data_type_conversions opts of
                                   None \<Rightarrow> (h3, Inr r3)
                                 | Some tc \<Rightarrow> convert_data_types_at env h3 r3 tc") auto
    have b4: "take ?n h4 = h \<and>
         (case r4 of
            Inl e \<Rightarrow> coercion_stage env opts (h3 ! r3) = Inl e
          | Inr k \<Rightarrow> ?n \<le> k \<and> k < length h4
                     \<and> coercion_stage env opts (h3 ! r3) = Inr (h4 ! k))"
    proof (cases "o_data_type_conversions opts")
      case None
      then show ?thesis using c b3 by (auto simp: coercion_stage_def)
    next
      case (Some tc)
      then have "convert_data_types_at env h3 r3 tc = (h4, r4)" using c by simp
      from convert_data_types_at_step [OF _ _ _ this, of ?n h] b3 show ?thesis
        by (auto simp: coercion_stage_def Some split: sum.splits)
    qed
    have "h' = h4" "res = r4"
      using assms(2) False m Inr f s c by (simp_all add: transform_data_at_def copy_at_def)
    moreover have "h4 ! df = take ?n h4 ! df"
      using assms(1) by simp
    ultimately show ?thesis
      using b4 b3 b2 b1 td by (auto split: sum.splits)
  qed
qed

theorem transform_data_leaves_input_unchanged_witness:
  "(0::nat) < length [[(''a'', (DInt64, [CInt 1, CInt 2]))]]
   \<and> transform_data_at plain_pandas [[(''a'', (DInt64, [CInt 1, CInt 2]))]] 0
       \<lparr>o_column_mappings = None, o_filters = None,
        o_new_columns = Some
          [\<lparr>c_name = Some ''k'', c_operation = Some ''default_value'', c_sources = None,
            c_separator = None, c_expression = None, c_source_column = None,
            c_value = Some (SStr ''x'')\<rparr>],
        o_data_type_conversions = Some [(''a'', ''str'')], other_keys = False\<rparr>
     = ([[(''a'', (DInt64, [CInt 1, CInt 2]))],
         [(''a'', (DObject, [CStr ''1'', CStr ''2''])), (''k'', (DObject, [CStr ''x'', CStr ''x'']))]],
        Inr 1)
   \<and> [[(''a'', (DInt64, [CInt 1, CInt 2]))],
       [(''a'', (DObject, [CStr ''1'', CStr ''2''])), (''k'', (DObject, [CStr ''x'', CStr ''x'']))]] ! 0
     = [[(''a'', (DInt64, [CInt 1, CInt 2]))]] ! 0
   \<and> transform_data plain_pandas [(''a'', (DInt64, [CInt 1, CInt 2]))]
       \<lparr>o_column_mappings = None, o_filters = None,
        o_new_columns = Some
          [\<lparr>c_name = Some ''k'', c_operation = Some ''default_value'', c_sources = None,
            c_separator = None, c_expression = None, c_source_column = None,
            c_value = Some (SStr ''x'')\<rparr>],
        o_data_type_conversions = Some [(''a'', ''str'')], other_keys = False\<rparr>
     = Inr [(''a'', (DObject, [CStr ''1'', CStr ''2''])), (''k'', (DObject, [CStr ''x'', CStr ''x'']))]"
proof -
  let ?df = "[(''a'', (DInt64, [CInt 1, CInt 2]))]"
  let ?out = "[(''a'', (DObject, [CStr ''1'', CStr ''2''])), (''k'', (DObject, [CStr ''x'', CStr ''x'']))]"
  let ?o = "\<lparr>o_column_mappings = None, o_filters = None,
        o_new_columns = Some
          [\<lparr>c_name = Some ''k'', c_operation = Some ''default_value'', c_sources = None,
            c_separator = None, c_expression = None, c_source_column = None,
            c_value = Some (SStr ''x'')\<rparr>],
        o_data_type_conversions = Some [(''a'', ''str'')], other_keys = False\<rparr>"
  have l: "(0::nat) < length [?df]" by simp
  have e: "transform_data_at plain_pandas [?df] 0 ?o = ([?df, ?out], Inr 1)"
    by (simp add: transform_data_at_def no_options_def copy_at_def add_new_columns_at_def
          add_column_def falsy_def broadcast_def set_column_def columns_def nrows_def
          convert_column_def convert_series_def astype_str_def
          str_of_int_def str_of_nat.simps)
  from transform_data_leaves_input_unchanged [OF l e] l e show ?thesis by simp
qed

section \<open>Properties of the string conditions of the row filter\<close>

lemma str_mask_nulls:
  "str_mask env cond (dt, cells) pat = Inr keep \<Longrightarrow>
   length keep = length cells \<and> (\<forall>i < length cells. is_null (cells ! i) \<longrightarrow> \<not> keep ! i)"
  by (cases "re_compile env pat")
     (auto simp: str_mask_def split: if_splits cell.splits elim!: is_null.elims)

lemma filter_mask_string:
  assumes "cond \<in> set [''contains'', ''startswith'', ''endswith'']"
  shows "filter_mask env (Some cond) (DObject, cells) v =
     (case str_mask env cond (DObject, cells) (str_of_jvalue env v) of
        Inl e \<Rightarrow> Inl e
      | Inr keep \<Rightarrow> Inr (Some keep))"
proof -
  from assms consider "cond = ''contains''" | "cond = ''startswith''" | "cond = ''endswith''"
    by auto
  then show ?thesis
    by cases (simp_all add: filter_mask_def)
qed

lemma str_mask_applies:
  assumes "cond \<in> set [''contains'', ''startswith'', ''endswith'']"
    "str_accessor_ok cells" "cond = ''contains'' \<longrightarrow> re_compile env pat \<noteq> None"
  shows "\<exists>keep. str_mask env cond (dt, cells) pat = Inr keep"
  using assms by (auto simp: str_mask_def)

lemma str_mask_skipped:
  assumes "\<not> (str_accessor_ok cells \<and> (cond = ''contains'' \<longrightarrow> re_compile env pat \<noteq> None))"
  shows "\<exists>e. str_mask env cond (dt, cells) pat = Inl e"
  using assms by (auto simp: str_mask_def)

text \<open>
  On a column of object dtype an entry with one of the three string conditions takes
  effect when the string accessor accepts the column and, for \<^verbatim>\<open>contains\<close>, the value
  compiles as a regular expression; it then keeps a selection of the rows that holds no
  row whose cell in the column is null. Otherwise the entry is skipped and the frame
  stays as it is.
\<close>

lemma string_filter_on_object_column:
  assumes "invariant df" and "map_of df column = Some (DObject, cells)"
    and "f_column f = Some column" and "f_condition f = Some cond"
    and "cond \<in> set [''contains'', ''startswith'', ''endswith'']"
    and "pat = str_of_jvalue env (case f_value f of None \<Rightarrow> JScalar SNull | Some v \<Rightarrow> v)"
  shows "(str_accessor_ok cells \<and> (cond = ''contains'' \<longrightarrow> re_compile env pat \<noteq> None) \<longrightarrow>
           (\<exists>keep. length keep = length cells
                  \<and> filter_rows env df [f] = select_rows keep df
                  \<and> (\<forall>i < length cells. is_null (cells ! i) \<longrightarrow> \<not> keep ! i)))
       \<and> (\<not> (str_accessor_ok cells \<and> (cond = ''contains'' \<longrightarrow> re_compile env pat \<noteq> None)) \<longrightarrow>
           filter_rows env df [f] = df)"
proof (intro conjI impI)
  let ?v = "case f_value f of None \<Rightarrow> JScalar SNull | Some v \<Rightarrow> v"
  have n: "length cells = nrows df"
    using assms(1,2) map_of_nrows [of df column "(DObject, cells)"] by (simp add: invariant_def)
  have fm: "filter_mask env (f_condition f) (DObject, cells) ?v =
     (case str_mask env cond (DObject, cells) pat of
        Inl e \<Rightarrow> Inl e
      | Inr keep \<Rightarrow> Inr (Some keep))"
    using filter_mask_string [OF assms(5)] assms(4,6) by simp
  {
    assume "str_accessor_ok cells \<and> (cond = ''contains'' \<longrightarrow> re_compile env pat \<noteq> None)"
    then obtain keep where k: "str_mask env cond (DObject, cells) pat = Inr keep"
      using str_mask_applies [OF assms(5)] by blast
    then have p: "length keep = length cells"
        "\<forall>i < length cells. is_null (cells ! i) \<longrightarrow> \<not> keep ! i"
      using str_mask_nulls by blast+
    have "filter_rows env df [f] = select_rows keep df"
      using assms(2,3) fm k p(1) n
      by (simp add: filter_rows_foldl apply_filter_def boolean_index_def)
    with p show "\<exists>keep. length keep = length cells
                  \<and> filter_rows env df [f] = select_rows keep df
                  \<and> (\<forall>i < length cells. is_null (cells ! i) \<longrightarrow> \<not> keep ! i)"
      by blast
  }
  {
    assume "\<not> (str_accessor_ok cells \<and> (cond = ''contains'' \<longrightarrow> re_compile env pat \<noteq> None))"
    then obtain e where "str_mask env cond (DObject, cells) pat = Inl e"
      using str_mask_skipped by blast
    then show "filter_rows env df [f] = df"
      using assms(2,3) fm by (simp add: filter_rows_foldl apply_filter_def)
  }
qed

text \<open>
  C2 (for \<^verbatim>\<open>contains\<close>, \<^verbatim>\<open>startswith\<close> and \<^verbatim>\<open>endswith\<close> a row whose cell is
  null never matches and is excluded, also when the column is not a string column and
  is converted to text first). The conversion of line 155, \<^verbatim>\<open>astype(str)\<close>, turns the
  NaN of a float column into the text \<^verbatim>\<open>"nan"\<close> before the predicate runs, so that
  \<^verbatim>\<open>na=False\<close> finds nothing missing, against the comment of line 158: with the
  condition \<^verbatim>\<open>startswith "n"\<close> the row of the missing value matches and is kept, for
  every library.
\<close>

theorem string_filter_keeps_nan_of_float_column:
  "astype_str env (DFloat64, [CNull NaN]) = (DObject, [CStr ''nan''])
   \<and> filter_rows env [(''c'', (DFloat64, [CNull NaN]))]
       [\<lparr>f_column = Some ''c'', f_condition = Some ''startswith'',
         f_value = Some (JScalar (SStr ''n''))\<rparr>]
     = [(''c'', (DFloat64, [CNull NaN]))]
   \<and> filter_rows env [(''c'', (DFloat64, [CNull NaN]))]
       [\<lparr>f_column = Some ''c'', f_condition = Some ''startswith'',
         f_value = Some (JScalar (SStr ''n''))\<rparr>]
     \<noteq> [(''c'', (DFloat64, []))]"
  by (simp add: filter_rows_foldl apply_filter_def filter_mask_def astype_str_def str_mask_def
        str_accessor_ok_def boolean_index_def select_rows_def nrows_def)

end
